theory Spec2Isabelle
  imports Main "HOL-Library.AList"
begin

section \<open>The billing views of corporate/views/billing\_page.py\<close>

subsection \<open>Values, models and sessions\<close>

text \<open>
  A template context is a Python \<open>Dict[str, Any]\<close>. It is kept as an association list in
  insertion order; \<open>context[k] = v\<close> is \<open>AList.update k v\<close> (the value is replaced in
  place when the key is there, and appended otherwise).
\<close>

datatype py_value = PyNone | PyBool bool | PyInt int | PyStr string

type_synonym py_dict = "(string \<times> py_value) list"

text \<open>\<open>context.update(other)\<close>: the entries of \<open>other\<close> are stored one after the other.\<close>

definition dict_update :: "py_dict \<Rightarrow> py_dict \<Rightarrow> py_dict" where
  "dict_update context other = fold (\<lambda>(k, v). AList.update k v) other context"

text \<open>
  The plan type of a \<open>Realm\<close> and of a \<open>RemoteRealm\<close> or \<open>RemoteZulipServer\<close>. The models
  are declared in zerver/models and zilencer/models; the views compare the field with the
  constants named here, and every other tier is the last constructor.
\<close>

datatype realm_plan = PLAN_TYPE_STANDARD_FREE | PLAN_TYPE_LIMITED | PLAN_TYPE_OTHER int

datatype remote_plan = PLAN_TYPE_COMMUNITY | PLAN_TYPE_SELF_HOSTED | REMOTE_PLAN_TYPE_OTHER int

record realm =
  realm_name :: string
  realm_plan_type :: realm_plan

record user_profile =
  user_id :: nat
  is_authenticated :: bool
  has_billing_access :: bool
  user_realm :: realm

record remote_realm =
  remote_realm_uuid :: string
  remote_realm_name :: string
  remote_realm_plan_type :: remote_plan

record remote_server =
  remote_server_uuid :: string
  remote_server_hostname :: string
  remote_server_plan_type :: remote_plan

record customer =
  customer_id :: nat
  sponsorship_pending :: bool

text \<open>
  A JSON value of a request variable. The endpoints below only tell an integer from
  anything else, so the other JSON values are \<open>null\<close> and the strings.
\<close>

datatype json = JNull | JInt int | JStr string

record http_request =
  request_user :: user_profile
  request_variables :: "(string \<times> json) list"

text \<open>
  The three billing sessions. A \<open>RealmBillingSession\<close> is kept as the arguments its
  constructor was called with (\<open>user\<close>, \<open>realm\<close>; an argument left out is \<open>None\<close>).
\<close>

record realm_billing_session =
  session_user :: "user_profile option"
  session_realm :: "realm option"

record remote_realm_billing_session =
  session_remote_realm :: remote_realm

record remote_server_billing_session =
  session_remote_server :: remote_server

datatype billing_session =
    RealmBillingSession realm_billing_session
  | RemoteRealmBillingSession remote_realm_billing_session
  | RemoteServerBillingSession remote_server_billing_session

record update_plan_request =
  status :: "int option"
  licenses :: "int option"
  licenses_at_next_renewal :: "int option"
  schedule :: "int option"

subsection \<open>Responses and exceptions\<close>

text \<open>\<open>reverse(viewname, args=..., kwargs=...)\<close> is kept symbolic: the URL table is Django's.\<close>

datatype url = reverse string "string list" "(string \<times> string) list"

datatype response =
    render string py_dict
  | HttpResponseRedirect url
  | json_success

datatype exn = AssertionError | ValidationError string | AccessDenied

subsection \<open>The collaborators and the record of their calls\<close>

text \<open>
  The views read the database and the billing session through functions whose bodies live
  in corporate/lib/stripe.py and corporate/models.py. They are parameters here: each takes
  the database \<open>'db\<close> and returns its answer with the database it leaves. Every call is
  appended to \<open>calls\<close>, so that what a view asked, and in which order, can be stated.
  \<open>session_has_billing_access\<close> is the method \<open>billing_session.has_billing_access()\<close> of
  the remote sessions (the local view reads the property \<open>user.has_billing_access\<close>),
  and \<open>customer_plan_exists customer\<close> is
  \<open>CustomerPlan.objects.filter(customer=customer).exists()\<close>. The reads are taken to
  answer; \<open>do_update_plan\<close> may raise. The last three are the access decorators of the
  update endpoints (zerver/decorator.py, corporate/lib/decorator.py): \<open>AccessDenied\<close>
  stands for the error of a decorator that refuses the caller, and the two remote
  decorators answer the billing session they build.
\<close>

datatype call =
    Call_has_billing_access billing_session
  | Call_get_customer_by_realm realm
  | Call_get_customer billing_session
  | Call_on_paid_plan billing_session
  | Call_customer_plan_exists customer
  | Call_get_billing_page_context billing_session
  | Call_do_update_plan billing_session update_plan_request
  | Call_require_billing_access http_request user_profile
  | Call_authenticated_remote_realm_management_endpoint http_request
  | Call_authenticated_remote_server_management_endpoint http_request

record 'db world =
  db :: 'db
  calls :: "call list"

record 'db collaborators =
  session_has_billing_access :: "billing_session \<Rightarrow> 'db \<Rightarrow> bool \<times> 'db"
  get_customer_by_realm :: "realm \<Rightarrow> 'db \<Rightarrow> customer option \<times> 'db"
  get_customer :: "billing_session \<Rightarrow> 'db \<Rightarrow> customer option \<times> 'db"
  on_paid_plan :: "billing_session \<Rightarrow> 'db \<Rightarrow> bool \<times> 'db"
  customer_plan_exists :: "customer \<Rightarrow> 'db \<Rightarrow> bool \<times> 'db"
  get_billing_page_context :: "billing_session \<Rightarrow> 'db \<Rightarrow> py_dict \<times> 'db"
  do_update_plan :: "billing_session \<Rightarrow> update_plan_request \<Rightarrow> 'db \<Rightarrow> (exn + unit) \<times> 'db"
  require_billing_access :: "http_request \<Rightarrow> user_profile \<Rightarrow> 'db \<Rightarrow> (exn + unit) \<times> 'db"
  authenticated_remote_realm_management_endpoint ::
    "http_request \<Rightarrow> 'db \<Rightarrow> (exn + remote_realm_billing_session) \<times> 'db"
  authenticated_remote_server_management_endpoint ::
    "http_request \<Rightarrow> 'db \<Rightarrow> (exn + remote_server_billing_session) \<times> 'db"

definition invoke :: "call \<Rightarrow> ('db \<Rightarrow> 'a \<times> 'db) \<Rightarrow> 'db world \<Rightarrow> 'a \<times> 'db world" where
  "invoke c f w = (case f (db w) of (r, d) \<Rightarrow> (r, w\<lparr>db := d, calls := calls w @ [c]\<rparr>))"

subsection \<open>billing\_page\<close>

text \<open>
  The view returns a response or raises; the world goes in and comes out. The block of
  lines 68 to 74 either returns the sponsorship redirect or goes on with a context that
  may carry the \<open>sponsorship_pending\<close> flag: it is the triple of the response to return
  at once (if any), the context and the world. The \<open>request\<close> argument of \<open>render\<close> is
  left out.
\<close>

definition billing_page ::
  "'db collaborators \<Rightarrow> http_request \<Rightarrow> string \<Rightarrow> 'db world \<Rightarrow> (exn + response) \<times> 'db world" where
  "billing_page co request success_message w =
     (let user = request_user request in
      if \<not> is_authenticated user then (Inl AssertionError, w)
      else
        let billing_session = RealmBillingSession
              \<lparr>session_user = None, session_realm = Some (user_realm user)\<rparr>;
            context = [(''admin_access'', PyBool (has_billing_access user)),
                       (''has_active_plan'', PyBool False),
                       (''org_name'', PyStr (realm_name (user_realm user))),
                       (''billing_base_url'', PyStr '''')]
        in
        if \<not> has_billing_access user then (Inr (render ''corporate/billing.html'' context), w)
        else if realm_plan_type (user_realm user) = PLAN_TYPE_STANDARD_FREE
        then (Inr (HttpResponseRedirect (reverse ''sponsorship_request'' [] [])), w)
        else
          (case invoke (Call_get_customer_by_realm (user_realm user))
                  (get_customer_by_realm co (user_realm user)) w of
             (customer, w1) \<Rightarrow>
               (case
                  (if (case customer of None \<Rightarrow> False | Some c \<Rightarrow> sponsorship_pending c)
                   then
                     (case invoke (Call_on_paid_plan billing_session)
                             (on_paid_plan co billing_session) w1 of
                        (paid, w') \<Rightarrow>
                          if \<not> paid
                          then (Some (HttpResponseRedirect (reverse ''sponsorship_request'' [] [])),
                                context, w')
                          else (None,
                                AList.update ''sponsorship_pending'' (PyBool True) context, w'))
                   else (None, context, w1))
                of
                  (Some r, _, w2) \<Rightarrow> (Inr r, w2)
                | (None, context, w2) \<Rightarrow>
                    if realm_plan_type (user_realm user) = PLAN_TYPE_LIMITED
                    then (Inr (HttpResponseRedirect (reverse ''plans'' [] [])), w2)
                    else
                      (case customer of
                         None \<Rightarrow> (Inr (HttpResponseRedirect (reverse ''upgrade_page'' [] [])), w2)
                       | Some c \<Rightarrow>
                           (case invoke (Call_customer_plan_exists c)
                                   (customer_plan_exists co c) w2 of
                              (exists, w3) \<Rightarrow>
                                if \<not> exists
                                then (Inr (HttpResponseRedirect (reverse ''upgrade_page'' [] [])), w3)
                                else
                                  (case invoke (Call_get_billing_page_context billing_session)
                                          (get_billing_page_context co billing_session) w3 of
                                     (main_context, w4) \<Rightarrow>
                                       (Inr (render ''corporate/billing.html''
                                          (if main_context \<noteq> []
                                           then AList.update ''success_message''
                                                  (PyStr success_message)
                                                  (dict_update context main_context)
                                           else context)), w4)))))))"

subsection \<open>remote\_realm\_billing\_page and remote\_server\_billing\_page\<close>

text \<open>
  The session of a remote view is its argument (the decorator built it); the collaborators
  take it as a \<open>billing_session\<close>.
\<close>

definition remote_realm_billing_page ::
  "'db collaborators \<Rightarrow> remote_realm_billing_session \<Rightarrow> string \<Rightarrow> 'db world
    \<Rightarrow> (exn + response) \<times> 'db world" where
  "remote_realm_billing_page co billing_session success_message w =
     (let session = RemoteRealmBillingSession billing_session;
          realm_uuid = remote_realm_uuid (session_remote_realm billing_session) in
      case invoke (Call_has_billing_access session) (session_has_billing_access co session) w of
        (admin_access, w0) \<Rightarrow>
          let context = [(''admin_access'', PyBool admin_access),
                         (''has_active_plan'', PyBool False),
                         (''org_name'', PyStr (remote_realm_name (session_remote_realm billing_session))),
                         (''billing_base_url'', PyStr (''/realm/'' @ realm_uuid))]
          in
          if remote_realm_plan_type (session_remote_realm billing_session) = PLAN_TYPE_COMMUNITY
          then (Inr (HttpResponseRedirect
                  (reverse ''remote_realm_sponsorship_page'' [realm_uuid] [])), w0)
          else
            (case invoke (Call_get_customer session) (get_customer co session) w0 of
               (customer, w1) \<Rightarrow>
                 (case
                    (if (case customer of None \<Rightarrow> False | Some c \<Rightarrow> sponsorship_pending c)
                     then
                       (case invoke (Call_on_paid_plan session) (on_paid_plan co session) w1 of
                          (paid, w') \<Rightarrow>
                            if \<not> paid
                            then (Some (HttpResponseRedirect
                                    (reverse ''remote_realm_sponsorship_page'' [realm_uuid] [])),
                                  context, w')
                            else (None,
                                  AList.update ''sponsorship_pending'' (PyBool True) context, w'))
                     else (None, context, w1))
                  of
                    (Some r, _, w2) \<Rightarrow> (Inr r, w2)
                  | (None, context, w2) \<Rightarrow>
                      if remote_realm_plan_type (session_remote_realm billing_session)
                           = PLAN_TYPE_SELF_HOSTED
                      then (Inr (HttpResponseRedirect
                              (reverse ''remote_realm_plans_page'' [realm_uuid] [])), w2)
                      else
                        (case customer of
                           None \<Rightarrow> (Inr (HttpResponseRedirect
                                     (reverse ''remote_realm_upgrade_page'' [realm_uuid] [])), w2)
                         | Some c \<Rightarrow>
                             (case invoke (Call_customer_plan_exists c)
                                     (customer_plan_exists co c) w2 of
                                (exists, w3) \<Rightarrow>
                                  if \<not> exists
                                  then (Inr (HttpResponseRedirect
                                          (reverse ''remote_realm_upgrade_page'' [realm_uuid] [])), w3)
                                  else
                                    (case invoke (Call_get_billing_page_context session)
                                            (get_billing_page_context co session) w3 of
                                       (main_context, w4) \<Rightarrow>
                                         (Inr (render ''corporate/billing.html''
                                            (if main_context \<noteq> []
                                             then AList.update ''success_message''
                                                    (PyStr success_message)
                                                    (dict_update context main_context)
                                             else context)), w4)))))))"

text \<open>
  The server view tests the plan type, the missing customer and the missing plan in one
  \<open>or\<close>: Python stops at the first operand that holds, so the plans are looked up only
  for a customer that exists on a plan type other than \<open>PLAN_TYPE_SELF_HOSTED\<close>. The
  three operands have one target, \<open>remote_server_upgrade_page\<close>.
\<close>

definition remote_server_billing_page ::
  "'db collaborators \<Rightarrow> remote_server_billing_session \<Rightarrow> string \<Rightarrow> 'db world
    \<Rightarrow> (exn + response) \<times> 'db world" where
  "remote_server_billing_page co billing_session success_message w =
     (let session = RemoteServerBillingSession billing_session;
          server_uuid = remote_server_uuid (session_remote_server billing_session) in
      case invoke (Call_has_billing_access session) (session_has_billing_access co session) w of
        (admin_access, w0) \<Rightarrow>
          let context = [(''admin_access'', PyBool admin_access),
                         (''has_active_plan'', PyBool False),
                         (''org_name'', PyStr (remote_server_hostname (session_remote_server billing_session))),
                         (''billing_base_url'', PyStr (''/server/'' @ server_uuid))]
          in
          if remote_server_plan_type (session_remote_server billing_session) = PLAN_TYPE_COMMUNITY
          then (Inr (HttpResponseRedirect
                  (reverse ''remote_server_sponsorship_page'' [] [(''server_uuid'', server_uuid)])), w0)
          else
            (case invoke (Call_get_customer session) (get_customer co session) w0 of
               (customer, w1) \<Rightarrow>
                 (case
                    (if (case customer of None \<Rightarrow> False | Some c \<Rightarrow> sponsorship_pending c)
                     then
                       (case invoke (Call_on_paid_plan session) (on_paid_plan co session) w1 of
                          (paid, w') \<Rightarrow>
                            if \<not> paid
                            then (Some (HttpResponseRedirect
                                    (reverse ''remote_server_sponsorship_page'' []
                                       [(''server_uuid'', server_uuid)])),
                                  context, w')
                            else (None,
                                  AList.update ''sponsorship_pending'' (PyBool True) context, w'))
                     else (None, context, w1))
                  of
                    (Some r, _, w2) \<Rightarrow> (Inr r, w2)
                  | (None, context, w2) \<Rightarrow>
                      if remote_server_plan_type (session_remote_server billing_session)
                           = PLAN_TYPE_SELF_HOSTED
                      then (Inr (HttpResponseRedirect
                              (reverse ''remote_server_upgrade_page'' []
                                 [(''server_uuid'', server_uuid)])), w2)
                      else
                        (case customer of
                           None \<Rightarrow> (Inr (HttpResponseRedirect
                                     (reverse ''remote_server_upgrade_page'' []
                                        [(''server_uuid'', server_uuid)])), w2)
                         | Some c \<Rightarrow>
                             (case invoke (Call_customer_plan_exists c)
                                     (customer_plan_exists co c) w2 of
                                (exists, w3) \<Rightarrow>
                                  if \<not> exists
                                  then (Inr (HttpResponseRedirect
                                          (reverse ''remote_server_upgrade_page'' []
                                             [(''server_uuid'', server_uuid)])), w3)
                                  else
                                    (case invoke (Call_get_billing_page_context session)
                                            (get_billing_page_context co session) w3 of
                                       (main_context, w4) \<Rightarrow>
                                         (Inr (render ''corporate/billing.html''
                                            (if main_context \<noteq> []
                                             then AList.update ''success_message''
                                                    (PyStr success_message)
                                                    (dict_update context main_context)
                                             else context)), w4)))))))"

subsection \<open>The request variables of the update endpoints\<close>

text \<open>
  The constants of \<open>CustomerPlan\<close> (corporate/models.py). Their numbers are not in the
  sources, so they are a parameter of everything that names them. The views name the seven
  statuses; the two billing schedules are the monthly/annual enumeration of section 6.
\<close>

record customer_plan_constants =
  ACTIVE :: int
  DOWNGRADE_AT_END_OF_CYCLE :: int
  SWITCH_TO_ANNUAL_AT_END_OF_CYCLE :: int
  SWITCH_TO_MONTHLY_AT_END_OF_CYCLE :: int
  FREE_TRIAL :: int
  DOWNGRADE_AT_END_OF_FREE_TRIAL :: int
  ENDED :: int
  BILLING_SCHEDULE_ANNUAL :: int
  BILLING_SCHEDULE_MONTHLY :: int

definition ALLOWED_PLANS_API_STATUS_VALUES :: "customer_plan_constants \<Rightarrow> int list" where
  "ALLOWED_PLANS_API_STATUS_VALUES CustomerPlan =
     [ACTIVE CustomerPlan,
      DOWNGRADE_AT_END_OF_CYCLE CustomerPlan,
      SWITCH_TO_ANNUAL_AT_END_OF_CYCLE CustomerPlan,
      SWITCH_TO_MONTHLY_AT_END_OF_CYCLE CustomerPlan,
      FREE_TRIAL CustomerPlan,
      DOWNGRADE_AT_END_OF_FREE_TRIAL CustomerPlan,
      ENDED CustomerPlan]"

text \<open>
  Modelled from the spec: \<open>check_int\<close> (zerver/lib/validator.py) is not among the sources.
  The endpoints hand this one validator, which takes no bound, to \<open>licenses\<close>,
  \<open>licenses_at_next_renewal\<close> and \<open>schedule\<close>, the fields section 3 types
  \<open>Optional[int]\<close>: it accepts a value exactly when it is an integer, and answers it.
\<close>

definition check_int :: "string \<Rightarrow> json \<Rightarrow> exn + int" where
  "check_int var_name val =
     (case val of JInt n \<Rightarrow> Inr n | _ \<Rightarrow> Inl (ValidationError var_name))"

text \<open>
  Modelled from the spec: \<open>check_int_in\<close> (zerver/lib/validator.py) is not among the
  sources. It takes the list of the values allowed and accepts the integers of that list
  (section 3: only these values are legal, any other value fails validation).
\<close>

definition check_int_in :: "int list \<Rightarrow> string \<Rightarrow> json \<Rightarrow> exn + int" where
  "check_int_in possible_values var_name val =
     (case check_int var_name val of
        Inl e \<Rightarrow> Inl e
      | Inr n \<Rightarrow> if n \<in> set possible_values then Inr n else Inl (ValidationError var_name))"

text \<open>
  Modelled from the spec: \<open>REQ\<close> and \<open>has_request_variables\<close> (zerver/lib/request.py) are
  not among the sources. Section 6 makes the four fields optional: a variable the request
  does not carry takes its default \<open>None\<close> and is not validated; one it carries goes
  through its validator, whose error ends the request.
\<close>

definition REQ ::
  "string \<Rightarrow> (string \<Rightarrow> json \<Rightarrow> exn + int) \<Rightarrow> http_request \<Rightarrow> exn + int option" where
  "REQ var_name json_validator request =
     (case map_of (request_variables request) var_name of
        None \<Rightarrow> Inr None
      | Some val \<Rightarrow>
          (case json_validator var_name val of Inl e \<Rightarrow> Inl e | Inr n \<Rightarrow> Inr (Some n)))"

text \<open>
  The three update endpoints declare the same four variables with the same validators, in
  the same order (lines 202 to 211, 229 to 238 and 255 to 264), and build the same
  \<open>UpdatePlanRequest\<close> from them; the first variable that fails ends the request.
\<close>

definition update_plan_variables ::
  "customer_plan_constants \<Rightarrow> http_request \<Rightarrow> exn + update_plan_request" where
  "update_plan_variables CustomerPlan request =
     (case REQ ''status'' (check_int_in (ALLOWED_PLANS_API_STATUS_VALUES CustomerPlan)) request of
        Inl e \<Rightarrow> Inl e
      | Inr status' \<Rightarrow>
     (case REQ ''licenses'' check_int request of
        Inl e \<Rightarrow> Inl e
      | Inr licenses' \<Rightarrow>
     (case REQ ''licenses_at_next_renewal'' check_int request of
        Inl e \<Rightarrow> Inl e
      | Inr licenses_at_next_renewal' \<Rightarrow>
     (case REQ ''schedule'' check_int request of
        Inl e \<Rightarrow> Inl e
      | Inr schedule' \<Rightarrow>
          Inr \<lparr>status = status', licenses = licenses',
               licenses_at_next_renewal = licenses_at_next_renewal',
               schedule = schedule'\<rparr>))))"

subsection \<open>update\_plan, update\_plan\_for\_remote\_realm, update\_plan\_for\_remote\_server\<close>

text \<open>
  The three endpoints stack their two decorators in different orders. \<open>update_plan\<close> has
  \<open>@require_billing_access\<close> outside \<open>@has_request_variables\<close> (lines 197 and 198): the
  caller is checked first, then the variables are validated. The two remote endpoints have
  \<open>@has_request_variables\<close> outside their
  \<open>@authenticated_remote_..._management_endpoint\<close> (lines 224 and 225, 250 and 251):
  the variables are validated first, then the caller is authenticated and the billing
  session built. The bodies of the access decorators are not in the sources; they are the
  last three collaborators, and their calls are recorded like the others.

  \<open>update_plan\<close> below is the function under \<open>@has_request_variables\<close>, as
  \<open>require_billing_access\<close> calls it with the user it admitted; \<open>update_plan_endpoint\<close>
  is the endpoint with its outer decorator. An exception of \<open>do_update_plan\<close> is the
  endpoint's.
\<close>

definition update_plan ::
  "'db collaborators \<Rightarrow> customer_plan_constants \<Rightarrow> http_request \<Rightarrow> user_profile \<Rightarrow> 'db world
    \<Rightarrow> (exn + response) \<times> 'db world" where
  "update_plan co CustomerPlan request user w =
     (case update_plan_variables CustomerPlan request of
        Inl e \<Rightarrow> (Inl e, w)
      | Inr update_plan_request \<Rightarrow>
          let billing_session = RealmBillingSession
                \<lparr>session_user = Some user, session_realm = None\<rparr>
          in
          (case invoke (Call_do_update_plan billing_session update_plan_request)
                  (do_update_plan co billing_session update_plan_request) w of
             (Inl e, w') \<Rightarrow> (Inl e, w')
           | (Inr _, w') \<Rightarrow> (Inr json_success, w')))"




subsection \<open>The decision order of section 4.1\<close>

text \<open>
  Following the spec's words, not the source: steps 2 to 7 of section 4.1, first match
  wins. The account supplies whether its plan type is the community tier and whether it is
  the self-hosted/limited tier, its three redirect targets, and how its customer is
  fetched.
\<close>

text \<open>
  Step 3, on a fetched customer: \<open>on_paid_plan\<close> is asked only for a customer with a
  pending sponsorship; the answer is the sponsorship redirect (3a), or nothing and the
  context to go on with, flagged (3b) or as it was.
\<close>

definition resolve_step_3 ::
  "'db collaborators \<Rightarrow> billing_session \<Rightarrow> url \<Rightarrow> customer option \<Rightarrow> py_dict \<Rightarrow> 'db world
    \<Rightarrow> (response option \<times> py_dict) \<times> 'db world" where
  "resolve_step_3 co account sponsorship_target customer context w =
     (case customer of
        None \<Rightarrow> ((None, context), w)
      | Some c \<Rightarrow>
          if sponsorship_pending c then
            (case invoke (Call_on_paid_plan account) (on_paid_plan co account) w of
               (paid, w') \<Rightarrow>
                 if \<not> paid then ((Some (HttpResponseRedirect sponsorship_target), context), w')
                 else ((None, AList.update ''sponsorship_pending'' (PyBool True) context), w'))
          else ((None, context), w))"

text \<open>
  Step 7: the page, populated by the account's billing page context (when it has one) and
  the success message, on top of the context of step 3.
\<close>

definition resolve_step_7 ::
  "'db collaborators \<Rightarrow> billing_session \<Rightarrow> py_dict \<Rightarrow> string \<Rightarrow> 'db world
    \<Rightarrow> (exn + response) \<times> 'db world" where
  "resolve_step_7 co account context success_message w =
     (case invoke (Call_get_billing_page_context account)
             (get_billing_page_context co account) w of
        (main_context, w') \<Rightarrow>
          (Inr (render ''corporate/billing.html''
             (if main_context \<noteq> []
              then AList.update ''success_message'' (PyStr success_message)
                     (dict_update context main_context)
              else context)), w'))"

definition resolve ::
  "'db collaborators \<Rightarrow> billing_session \<Rightarrow> bool \<Rightarrow> bool \<Rightarrow> url \<Rightarrow> url \<Rightarrow> url
    \<Rightarrow> call \<Rightarrow> ('db \<Rightarrow> customer option \<times> 'db) \<Rightarrow> py_dict \<Rightarrow> string \<Rightarrow> 'db world
    \<Rightarrow> (exn + response) \<times> 'db world" where
  "resolve co account community limited sponsorship_target plans_target upgrade_target
     fetch_call fetch context success_message w =
     (if community then (Inr (HttpResponseRedirect sponsorship_target), w)
      else
        (case invoke fetch_call fetch w of
           (customer, w1) \<Rightarrow>
             (case resolve_step_3 co account sponsorship_target customer context w1 of
                ((Some r, _), w2) \<Rightarrow> (Inr r, w2)
              | ((None, context'), w2) \<Rightarrow>
                  if limited then (Inr (HttpResponseRedirect plans_target), w2)
                  else
                    (case customer of
                       None \<Rightarrow> (Inr (HttpResponseRedirect upgrade_target), w2)
                     | Some c \<Rightarrow>
                         (case invoke (Call_customer_plan_exists c)
                                 (customer_plan_exists co c) w2 of
                            (exists, w3) \<Rightarrow>
                              if \<not> exists then (Inr (HttpResponseRedirect upgrade_target), w3)
                              else resolve_step_7 co account context' success_message w3)))))"

text \<open>
  The routine on the three kinds of account. The local organization goes through step 1
  first (after the assertion that the user is authenticated); the remote accounts were
  admitted by their decorator and only ask \<open>has_billing_access\<close> for the context. The
  targets are those the views name; the remote server names its upgrade page at step 4.
\<close>

definition resolve_local_organization ::
  "'db collaborators \<Rightarrow> http_request \<Rightarrow> string \<Rightarrow> 'db world \<Rightarrow> (exn + response) \<times> 'db world" where
  "resolve_local_organization co request success_message w =
     (let user = request_user request in
      if \<not> is_authenticated user then (Inl AssertionError, w)
      else if \<not> has_billing_access user
      then (Inr (render ''corporate/billing.html''
              [(''admin_access'', PyBool False),
               (''has_active_plan'', PyBool False),
               (''org_name'', PyStr (realm_name (user_realm user))),
               (''billing_base_url'', PyStr '''')]), w)
      else resolve co
             (RealmBillingSession \<lparr>session_user = None, session_realm = Some (user_realm user)\<rparr>)
             (realm_plan_type (user_realm user) = PLAN_TYPE_STANDARD_FREE)
             (realm_plan_type (user_realm user) = PLAN_TYPE_LIMITED)
             (reverse ''sponsorship_request'' [] [])
             (reverse ''plans'' [] [])
             (reverse ''upgrade_page'' [] [])
             (Call_get_customer_by_realm (user_realm user))
             (get_customer_by_realm co (user_realm user))
             [(''admin_access'', PyBool True),
              (''has_active_plan'', PyBool False),
              (''org_name'', PyStr (realm_name (user_realm user))),
              (''billing_base_url'', PyStr '''')]
             success_message w)"

definition resolve_remote_realm ::
  "'db collaborators \<Rightarrow> remote_realm_billing_session \<Rightarrow> string \<Rightarrow> 'db world
    \<Rightarrow> (exn + response) \<times> 'db world" where
  "resolve_remote_realm co billing_session success_message w =
     (let account = RemoteRealmBillingSession billing_session;
          remote = session_remote_realm billing_session;
          realm_uuid = remote_realm_uuid remote
      in case invoke (Call_has_billing_access account) (session_has_billing_access co account) w of
           (admin_access, w0) \<Rightarrow>
             resolve co account
               (remote_realm_plan_type remote = PLAN_TYPE_COMMUNITY)
               (remote_realm_plan_type remote = PLAN_TYPE_SELF_HOSTED)
               (reverse ''remote_realm_sponsorship_page'' [realm_uuid] [])
               (reverse ''remote_realm_plans_page'' [realm_uuid] [])
               (reverse ''remote_realm_upgrade_page'' [realm_uuid] [])
               (Call_get_customer account)
               (get_customer co account)
               [(''admin_access'', PyBool admin_access),
                (''has_active_plan'', PyBool False),
                (''org_name'', PyStr (remote_realm_name remote)),
                (''billing_base_url'', PyStr (''/realm/'' @ realm_uuid))]
               success_message w0)"

definition resolve_remote_server ::
  "'db collaborators \<Rightarrow> remote_server_billing_session \<Rightarrow> string \<Rightarrow> 'db world
    \<Rightarrow> (exn + response) \<times> 'db world" where
  "resolve_remote_server co billing_session success_message w =
     (let account = RemoteServerBillingSession billing_session;
          remote = session_remote_server billing_session;
          server_uuid = remote_server_uuid remote
      in case invoke (Call_has_billing_access account) (session_has_billing_access co account) w of
           (admin_access, w0) \<Rightarrow>
             resolve co account
               (remote_server_plan_type remote = PLAN_TYPE_COMMUNITY)
               (remote_server_plan_type remote = PLAN_TYPE_SELF_HOSTED)
               (reverse ''remote_server_sponsorship_page'' [] [(''server_uuid'', server_uuid)])
               (reverse ''remote_server_upgrade_page'' [] [(''server_uuid'', server_uuid)])
               (reverse ''remote_server_upgrade_page'' [] [(''server_uuid'', server_uuid)])
               (Call_get_customer account)
               (get_customer co account)
               [(''admin_access'', PyBool admin_access),
                (''has_active_plan'', PyBool False),
                (''org_name'', PyStr (remote_server_hostname remote)),
                (''billing_base_url'', PyStr (''/server/'' @ server_uuid))]
               success_message w0)"

subsection \<open>What the statements below speak of\<close>

text \<open>
  The session \<open>billing_page\<close> builds, and the answer of the customer fetch of step 3 with
  the database it leaves: the local view fetches on the database it was given, a remote
  view after its \<open>has_billing_access\<close> call.
\<close>

definition local_account :: "http_request \<Rightarrow> billing_session" where
  "local_account request =
     RealmBillingSession
       \<lparr>session_user = None, session_realm = Some (user_realm (request_user request))\<rparr>"

definition fetched_local ::
  "'db collaborators \<Rightarrow> http_request \<Rightarrow> 'db world \<Rightarrow> customer option \<times> 'db" where
  "fetched_local co request w =
     get_customer_by_realm co (user_realm (request_user request)) (db w)"

definition fetched_remote ::
  "'db collaborators \<Rightarrow> billing_session \<Rightarrow> 'db world \<Rightarrow> customer option \<times> 'db" where
  "fetched_remote co account w =
     get_customer co account (snd (session_has_billing_access co account (db w)))"

text \<open>
  Step 3a of section 4.1 on what was fetched: the customer exists, its sponsorship is
  pending and the account is not on a paid plan.
\<close>

definition sponsorship_redirect_due ::
  "'db collaborators \<Rightarrow> billing_session \<Rightarrow> customer option \<times> 'db \<Rightarrow> bool" where
  "sponsorship_redirect_due co account fetched =
     (case fst fetched of
        None \<Rightarrow> False
      | Some c \<Rightarrow> sponsorship_pending c \<and> \<not> fst (on_paid_plan co account (snd fetched)))"

text \<open>The database once step 3 is over: \<open>on_paid_plan\<close> ran only for a pending sponsorship.\<close>

definition db_after_sponsorship ::
  "'db collaborators \<Rightarrow> billing_session \<Rightarrow> customer option \<times> 'db \<Rightarrow> 'db" where
  "db_after_sponsorship co account fetched =
     (case fst fetched of
        None \<Rightarrow> snd fetched
      | Some c \<Rightarrow>
          if sponsorship_pending c then snd (on_paid_plan co account (snd fetched))
          else snd fetched)"

text \<open>Steps 5 and 6: there is no customer, or the customer has no plan row.\<close>

definition no_customer_plan ::
  "'db collaborators \<Rightarrow> billing_session \<Rightarrow> customer option \<times> 'db \<Rightarrow> bool" where
  "no_customer_plan co account fetched =
     (case fst fetched of
        None \<Rightarrow> True
      | Some c \<Rightarrow>
          \<not> fst (customer_plan_exists co c (db_after_sponsorship co account fetched)))"

text \<open>
  The account of claim C4: its customer exists with a pending sponsorship, it is on a paid
  plan, and the customer has a plan row. Each collaborator is asked on the database the
  one before it left.
\<close>

definition pending_on_paid_plan ::
  "'db collaborators \<Rightarrow> billing_session \<Rightarrow> customer option \<times> 'db \<Rightarrow> bool" where
  "pending_on_paid_plan co account fetched =
     (case fst fetched of
        None \<Rightarrow> False
      | Some c \<Rightarrow>
          let paid = on_paid_plan co account (snd fetched);
              plans = customer_plan_exists co c (snd paid)
          in sponsorship_pending c \<and> fst paid \<and> fst plans)"

text \<open>
  What \<open>get_billing_page_context\<close> answers to such an account, and the value of
  \<open>sponsorship_pending\<close> the page then shows: the view sets the flag to \<open>True\<close> before it
  merges the answer into the context, so an entry of the answer under the same key (the
  last one, should there be several) replaces it.
\<close>

definition billing_page_context_answer ::
  "'db collaborators \<Rightarrow> billing_session \<Rightarrow> customer option \<times> 'db \<Rightarrow> py_dict" where
  "billing_page_context_answer co account fetched =
     (case fst fetched of
        None \<Rightarrow> []
      | Some c \<Rightarrow>
          fst (get_billing_page_context co account
                 (snd (customer_plan_exists co c
                         (snd (on_paid_plan co account (snd fetched)))))))"

definition sponsorship_pending_shown :: "py_dict \<Rightarrow> py_value" where
  "sponsorship_pending_shown main_context =
     (case map_of (rev main_context) ''sponsorship_pending'' of
        None \<Rightarrow> PyBool True
      | Some v \<Rightarrow> v)"



text \<open>The billing session a call was made on, for the calls that are made on one.\<close>

fun call_session :: "call \<Rightarrow> billing_session option" where
  "call_session (Call_has_billing_access s) = Some s"
| "call_session (Call_get_customer_by_realm r) = None"
| "call_session (Call_get_customer s) = Some s"
| "call_session (Call_on_paid_plan s) = Some s"
| "call_session (Call_customer_plan_exists c) = None"
| "call_session (Call_get_billing_page_context s) = Some s"
| "call_session (Call_do_update_plan s r) = Some s"
| "call_session (Call_require_billing_access request user) = None"
| "call_session (Call_authenticated_remote_realm_management_endpoint request) = None"
| "call_session (Call_authenticated_remote_server_management_endpoint request) = None"



subsection \<open>Fixtures\<close>

definition fixture_world :: "nat world" where
  "fixture_world = \<lparr>db = 0, calls = []\<rparr>"

definition fixture_realm :: "realm_plan \<Rightarrow> realm" where
  "fixture_realm p = \<lparr>realm_name = ''zulip'', realm_plan_type = p\<rparr>"

definition fixture_user :: "bool \<Rightarrow> realm_plan \<Rightarrow> user_profile" where
  "fixture_user access p =
     \<lparr>user_id = 7, is_authenticated = True, has_billing_access = access,
      user_realm = fixture_realm p\<rparr>"

definition fixture_request :: "bool \<Rightarrow> realm_plan \<Rightarrow> (string \<times> json) list \<Rightarrow> http_request" where
  "fixture_request access p vars =
     \<lparr>request_user = fixture_user access p, request_variables = vars\<rparr>"

definition fixture_remote_realm_session :: "remote_plan \<Rightarrow> remote_realm_billing_session" where
  "fixture_remote_realm_session p =
     \<lparr>session_remote_realm =
        \<lparr>remote_realm_uuid = ''r-1'', remote_realm_name = ''remote'', remote_realm_plan_type = p\<rparr>\<rparr>"

definition fixture_remote_server_session :: "remote_plan \<Rightarrow> remote_server_billing_session" where
  "fixture_remote_server_session p =
     \<lparr>session_remote_server =
        \<lparr>remote_server_uuid = ''s-1'', remote_server_hostname = ''example.org'',
         remote_server_plan_type = p\<rparr>\<rparr>"

definition fixture_customer :: "bool \<Rightarrow> customer" where
  "fixture_customer pending = \<lparr>customer_id = 1, sponsorship_pending = pending\<rparr>"

text \<open>
  A database that only counts the writes made to it, and collaborators over it: the reads
  answer from the fixture's arguments and leave the count, \<open>do_update_plan\<close> adds one.
  The access decorators admit the callers who have billing access (for the remote
  endpoints: whose request's user has), and build the remote sessions of the fixtures.
\<close>

definition fixture_collaborators ::
  "customer option \<Rightarrow> bool \<Rightarrow> bool \<Rightarrow> py_dict \<Rightarrow> nat collaborators" where
  "fixture_collaborators cust paid plans page =
     \<lparr>session_has_billing_access = (\<lambda>_ d. (True, d)),
      get_customer_by_realm = (\<lambda>_ d. (cust, d)),
      get_customer = (\<lambda>_ d. (cust, d)),
      on_paid_plan = (\<lambda>_ d. (paid, d)),
      customer_plan_exists = (\<lambda>_ d. (plans, d)),
      get_billing_page_context = (\<lambda>_ d. (page, d)),
      do_update_plan = (\<lambda>_ _ d. (Inr (), Suc d)),
      require_billing_access =
        (\<lambda>_ user d. (if has_billing_access user then Inr () else Inl AccessDenied, d)),
      authenticated_remote_realm_management_endpoint =
        (\<lambda>request d.
           (if has_billing_access (request_user request)
            then Inr (fixture_remote_realm_session (REMOTE_PLAN_TYPE_OTHER 3))
            else Inl AccessDenied, d)),
      authenticated_remote_server_management_endpoint =
        (\<lambda>request d.
           (if has_billing_access (request_user request)
            then Inr (fixture_remote_server_session (REMOTE_PLAN_TYPE_OTHER 3))
            else Inl AccessDenied, d))\<rparr>"


definition fixture_constants :: customer_plan_constants where
  "fixture_constants =
     \<lparr>ACTIVE = 1, DOWNGRADE_AT_END_OF_CYCLE = 2, SWITCH_TO_ANNUAL_AT_END_OF_CYCLE = 4,
      SWITCH_TO_MONTHLY_AT_END_OF_CYCLE = 6, FREE_TRIAL = 3,
      DOWNGRADE_AT_END_OF_FREE_TRIAL = 7, ENDED = 11,
      BILLING_SCHEDULE_ANNUAL = 1, BILLING_SCHEDULE_MONTHLY = 2\<rparr>"

lemmas fixture_defs =
  fixture_collaborators_def fixture_world_def fixture_realm_def fixture_user_def
  fixture_request_def fixture_remote_realm_session_def fixture_remote_server_session_def
  fixture_customer_def fixture_constants_def

section \<open>Properties\<close>

text \<open>
  C10. A local request whose user lacks billing access gets the billing page with exactly
  the base context (\<open>admin_access\<close> false, \<open>has_active_plan\<close> false, the realm's name, an
  empty \<open>billing_base_url\<close>), and the world is left as it was: no collaborator is called,
  so neither the customer, nor the plans, nor the billing page context is looked up.
\<close>

theorem billing_page_no_access:
  assumes "is_authenticated (request_user request)"
      and "\<not> has_billing_access (request_user request)"
  shows "billing_page co request success_message w =
           (Inr (render ''corporate/billing.html''
              [(''admin_access'', PyBool False),
               (''has_active_plan'', PyBool False),
               (''org_name'', PyStr (realm_name (user_realm (request_user request)))),
               (''billing_base_url'', PyStr '''')]), w)"
  using assms by (simp add: billing_page_def Let_def)

theorem billing_page_no_access_witness:
  "billing_page (fixture_collaborators None False False [])
       (fixture_request False PLAN_TYPE_LIMITED []) ''saved'' fixture_world =
     (Inr (render ''corporate/billing.html''
        [(''admin_access'', PyBool False),
         (''has_active_plan'', PyBool False),
         (''org_name'', PyStr ''zulip''),
         (''billing_base_url'', PyStr '''')]), fixture_world)"
  using billing_page_no_access
    [of "fixture_request False PLAN_TYPE_LIMITED []" "fixture_collaborators None False False []"
        "''saved''" fixture_world]
  by (simp add: fixture_request_def fixture_user_def fixture_realm_def)

subsection \<open>The steps of the routine\<close>

lemmas step_defs =
  resolve_def resolve_step_3_def resolve_step_7_def invoke_def case_prod_beta

lemma billing_page_is_resolve:
  "billing_page co request success_message w =
     resolve_local_organization co request success_message w"
  by (simp add: billing_page_def resolve_local_organization_def step_defs Let_def
        split: option.splits)

lemma remote_realm_billing_page_is_resolve:
  "remote_realm_billing_page co billing_session success_message w =
     resolve_remote_realm co billing_session success_message w"
  by (simp add: remote_realm_billing_page_def resolve_remote_realm_def step_defs Let_def
        split: option.splits)

lemma remote_server_billing_page_is_resolve:
  "remote_server_billing_page co billing_session success_message w =
     resolve_remote_server co billing_session success_message w"
  by (simp add: remote_server_billing_page_def resolve_remote_server_def step_defs Let_def
        split: option.splits)

lemmas on_account =
  billing_page_is_resolve remote_realm_billing_page_is_resolve
  remote_server_billing_page_is_resolve resolve_local_organization_def
  resolve_remote_realm_def resolve_remote_server_def local_account_def fetched_local_def
  fetched_remote_def Let_def invoke_def case_prod_beta

lemma resolve_step_3a:
  assumes "\<not> community" and "sponsorship_redirect_due co account (fetch (db w))"
  shows "fst (resolve co account community limited s p u fc fetch ctx msg w) =
           Inr (HttpResponseRedirect s)"
  using assms
  by (auto simp: step_defs sponsorship_redirect_due_def split: option.splits)

lemma resolve_step_4:
  assumes "\<not> community" and "limited"
      and "\<not> sponsorship_redirect_due co account (fetch (db w))"
  shows "fst (resolve co account community limited s p u fc fetch ctx msg w) =
           Inr (HttpResponseRedirect p)"
  using assms
  by (auto simp: step_defs sponsorship_redirect_due_def split: option.splits)

lemma resolve_steps_5_and_6:
  assumes "\<not> community" and "\<not> limited"
      and "\<not> sponsorship_redirect_due co account (fetch (db w))"
      and "no_customer_plan co account (fetch (db w))"
  shows "fst (resolve co account community limited s p u fc fetch ctx msg w) =
           Inr (HttpResponseRedirect u)"
  using assms
  by (auto simp: step_defs sponsorship_redirect_due_def db_after_sponsorship_def
        no_customer_plan_def split: option.splits if_splits)

lemma map_of_dict_update:
  "map_of (dict_update ctx other) k =
     (case map_of (rev other) k of None \<Rightarrow> map_of ctx k | Some v \<Rightarrow> Some v)"
proof (induction other arbitrary: ctx)
  case Nil
  show ?case by (simp add: dict_update_def)
next
  case (Cons x xs)
  have "dict_update ctx (x # xs) = dict_update (AList.update (fst x) (snd x) ctx) xs"
    by (simp add: dict_update_def case_prod_beta)
  then show ?case
    using Cons.IH [of "AList.update (fst x) (snd x) ctx"]
    by (auto simp: AList.update_conv' map_add_def split: option.splits)
qed

lemma resolve_step_7_pending:
  assumes "\<not> community" and "\<not> limited"
      and "fetch (db w) = fetched"
      and "pending_on_paid_plan co account fetched"
  shows "\<exists>context. fst (resolve co account community limited s p u fc fetch ctx msg w) =
            Inr (render ''corporate/billing.html'' context)
          \<and> map_of context ''sponsorship_pending'' =
              Some (sponsorship_pending_shown
                      (billing_page_context_answer co account fetched))"
  using assms
  by (auto simp: step_defs pending_on_paid_plan_def billing_page_context_answer_def
        sponsorship_pending_shown_def Let_def AList.update_conv' map_of_dict_update
        split: option.splits)


lemma resolve_calls:
  assumes "(\<exists>r. fc = Call_get_customer_by_realm r) \<or> (\<exists>s. fc = Call_get_customer s)"
  shows "\<exists>cs. calls (snd (resolve co account community limited s p u fc fetch ctx msg w)) =
            calls w @ cs \<and> distinct cs
          \<and> set cs \<subseteq> {fc, Call_on_paid_plan account, Call_get_billing_page_context account}
                      \<union> range Call_customer_plan_exists"
  using assms
  by (auto simp: step_defs split: option.splits)


subsection \<open>The three views against the decision order\<close>

text \<open>
  C1. The views take the steps of section 4.1 in their order, first match winning: each
  view is \<open>resolve\<close> run on its own kind of account (for the local organization after
  the access check of step 1). In particular an account on the
  community tier is sent to its sponsorship page at step 2, whatever the collaborators
  would answer, so also when its customer has a pending sponsorship: the local view
  leaves the world untouched, and the two remote views have asked nothing but
  \<open>has_billing_access\<close> for their base context. The customer is not fetched and
  \<open>on_paid_plan\<close> is not asked.
\<close>

theorem community_tier_redirects_at_step_2:
  "billing_page co request success_message w =
     resolve_local_organization co request success_message w
   \<and> remote_realm_billing_page co realm_session success_message w =
     resolve_remote_realm co realm_session success_message w
   \<and> remote_server_billing_page co server_session success_message w =
     resolve_remote_server co server_session success_message w
   \<and> (is_authenticated (request_user request) \<and> has_billing_access (request_user request) \<and>
    realm_plan_type (user_realm (request_user request)) = PLAN_TYPE_STANDARD_FREE \<longrightarrow>
      billing_page co request success_message w =
        (Inr (HttpResponseRedirect (reverse ''sponsorship_request'' [] [])), w))
   \<and> (remote_realm_plan_type (session_remote_realm realm_session) = PLAN_TYPE_COMMUNITY \<longrightarrow>
      remote_realm_billing_page co realm_session success_message w =
        (Inr (HttpResponseRedirect (reverse ''remote_realm_sponsorship_page''
                [remote_realm_uuid (session_remote_realm realm_session)] [])),
         w\<lparr>db := snd (session_has_billing_access co (RemoteRealmBillingSession realm_session) (db w)),
           calls := calls w @ [Call_has_billing_access (RemoteRealmBillingSession realm_session)]\<rparr>))
   \<and> (remote_server_plan_type (session_remote_server server_session) = PLAN_TYPE_COMMUNITY \<longrightarrow>
      remote_server_billing_page co server_session success_message w =
        (Inr (HttpResponseRedirect (reverse ''remote_server_sponsorship_page'' []
                [(''server_uuid'', remote_server_uuid (session_remote_server server_session))])),
         w\<lparr>db := snd (session_has_billing_access co (RemoteServerBillingSession server_session) (db w)),
           calls := calls w @ [Call_has_billing_access (RemoteServerBillingSession server_session)]\<rparr>))"
  by (simp add: billing_page_is_resolve remote_realm_billing_page_is_resolve
        remote_server_billing_page_is_resolve resolve_local_organization_def
        resolve_remote_realm_def resolve_remote_server_def resolve_def Let_def invoke_def
        case_prod_beta)

theorem community_tier_redirects_at_step_2_witness:
  "billing_page (fixture_collaborators (Some (fixture_customer True)) False True [])
       (fixture_request True PLAN_TYPE_STANDARD_FREE []) '''' fixture_world =
     (Inr (HttpResponseRedirect (reverse ''sponsorship_request'' [] [])), fixture_world)
   \<and> remote_realm_billing_page (fixture_collaborators (Some (fixture_customer True)) False True [])
       (fixture_remote_realm_session PLAN_TYPE_COMMUNITY) '''' fixture_world =
     (Inr (HttpResponseRedirect (reverse ''remote_realm_sponsorship_page'' [''r-1''] [])),
      \<lparr>db = 0, calls = [Call_has_billing_access
         (RemoteRealmBillingSession (fixture_remote_realm_session PLAN_TYPE_COMMUNITY))]\<rparr>)
   \<and> remote_server_billing_page (fixture_collaborators (Some (fixture_customer True)) False True [])
       (fixture_remote_server_session PLAN_TYPE_COMMUNITY) '''' fixture_world =
     (Inr (HttpResponseRedirect (reverse ''remote_server_sponsorship_page'' []
             [(''server_uuid'', ''s-1'')])),
      \<lparr>db = 0, calls = [Call_has_billing_access
         (RemoteServerBillingSession (fixture_remote_server_session PLAN_TYPE_COMMUNITY))]\<rparr>)"
  using community_tier_redirects_at_step_2
    [where request = "fixture_request True PLAN_TYPE_STANDARD_FREE []"
       and co = "fixture_collaborators (Some (fixture_customer True)) False True []"
       and success_message = "''''" and w = fixture_world
       and realm_session = "fixture_remote_realm_session PLAN_TYPE_COMMUNITY"
       and server_session = "fixture_remote_server_session PLAN_TYPE_COMMUNITY",
     THEN conjunct2, THEN conjunct2, THEN conjunct2]
  by (simp add: fixture_defs)


subsection \<open>Step 4\<close>

text \<open>
  C3, as the code has it. An account on the self-hosted/limited tier that reaches step 4
  (the local user is authenticated and has billing access; step 3a did not send it to the
  sponsorship page) is redirected: the local organization to \<open>plans\<close>, the remote realm
  to \<open>remote_realm_plans_page\<close>, and the remote server to
  \<open>remote_server_upgrade_page\<close>, the target it also names at steps 5 and 6. The three
  views reach step 4 under the same conditions.
\<close>

theorem limited_tier_step_4:
  "(is_authenticated (request_user request) \<and> has_billing_access (request_user request) \<and>
    realm_plan_type (user_realm (request_user request)) = PLAN_TYPE_LIMITED \<and>
    \<not> sponsorship_redirect_due co (local_account request) (fetched_local co request w) \<longrightarrow>
      fst (billing_page co request success_message w) =
        Inr (HttpResponseRedirect (reverse ''plans'' [] [])))
   \<and> (remote_realm_plan_type (session_remote_realm realm_session) = PLAN_TYPE_SELF_HOSTED \<and>
      \<not> sponsorship_redirect_due co (RemoteRealmBillingSession realm_session)
          (fetched_remote co (RemoteRealmBillingSession realm_session) w) \<longrightarrow>
      fst (remote_realm_billing_page co realm_session success_message w) =
        Inr (HttpResponseRedirect (reverse ''remote_realm_plans_page''
               [remote_realm_uuid (session_remote_realm realm_session)] [])))
   \<and> (remote_server_plan_type (session_remote_server server_session) = PLAN_TYPE_SELF_HOSTED \<and>
      \<not> sponsorship_redirect_due co (RemoteServerBillingSession server_session)
          (fetched_remote co (RemoteServerBillingSession server_session) w) \<longrightarrow>
      fst (remote_server_billing_page co server_session success_message w) =
        Inr (HttpResponseRedirect (reverse ''remote_server_upgrade_page'' []
               [(''server_uuid'', remote_server_uuid (session_remote_server server_session))])))"
  by (simp add: on_account resolve_step_4)

theorem limited_tier_step_4_witness:
  "fst (billing_page (fixture_collaborators (Some (fixture_customer False)) False True [])
          (fixture_request True PLAN_TYPE_LIMITED []) '''' fixture_world) =
     Inr (HttpResponseRedirect (reverse ''plans'' [] []))
   \<and> fst (remote_realm_billing_page
            (fixture_collaborators (Some (fixture_customer False)) False True [])
            (fixture_remote_realm_session PLAN_TYPE_SELF_HOSTED) '''' fixture_world) =
     Inr (HttpResponseRedirect (reverse ''remote_realm_plans_page'' [''r-1''] []))
   \<and> fst (remote_server_billing_page
            (fixture_collaborators (Some (fixture_customer False)) False True [])
            (fixture_remote_server_session PLAN_TYPE_SELF_HOSTED) '''' fixture_world) =
     Inr (HttpResponseRedirect (reverse ''remote_server_upgrade_page'' []
            [(''server_uuid'', ''s-1'')]))"
  using limited_tier_step_4
    [where request = "fixture_request True PLAN_TYPE_LIMITED []"
       and co = "fixture_collaborators (Some (fixture_customer False)) False True []"
       and success_message = "''''" and w = fixture_world
       and realm_session = "fixture_remote_realm_session PLAN_TYPE_SELF_HOSTED"
       and server_session = "fixture_remote_server_session PLAN_TYPE_SELF_HOSTED"]
  by (simp add: fixture_defs sponsorship_redirect_due_def fetched_local_def fetched_remote_def)

text \<open>
  The claim as the spec states it fails on the remote server: a server on
  \<open>PLAN_TYPE_SELF_HOSTED\<close> whose customer exists, has no pending sponsorship and has a
  plan is at step 4 and at no later step, and it is sent to the upgrade page, not to a
  plans page.
\<close>

theorem limited_tier_on_remote_server_counterexample:
  "remote_server_billing_page (fixture_collaborators (Some (fixture_customer False)) False True [])
       (fixture_remote_server_session PLAN_TYPE_SELF_HOSTED) '''' fixture_world =
     (Inr (HttpResponseRedirect (reverse ''remote_server_upgrade_page'' []
             [(''server_uuid'', ''s-1'')])),
      \<lparr>db = 0, calls =
         [Call_has_billing_access
            (RemoteServerBillingSession (fixture_remote_server_session PLAN_TYPE_SELF_HOSTED)),
          Call_get_customer
            (RemoteServerBillingSession (fixture_remote_server_session PLAN_TYPE_SELF_HOSTED))]\<rparr>)"
  by (simp add: remote_server_billing_page_def invoke_def Let_def
        fixture_defs)


subsection \<open>Steps 5, 6 and 7\<close>

text \<open>
  C4, as the code has it. An account past steps 1, 2 and 4 (billing access, a plan type
  that is neither the community nor the self-hosted/limited tier) whose customer exists
  with a pending sponsorship, that is on a paid plan and has a plan row, is shown the
  billing page and not redirected. The view sets \<open>sponsorship_pending\<close> to \<open>True\<close> and
  then merges the answer of \<open>get_billing_page_context\<close> into the context: the page shows
  \<open>True\<close> when that answer has no \<open>sponsorship_pending\<close> entry, and the answer's own
  entry otherwise.
\<close>

theorem pending_sponsorship_on_paid_plan_shows_page:
  "(is_authenticated (request_user request) \<and> has_billing_access (request_user request) \<and>
    realm_plan_type (user_realm (request_user request)) \<noteq> PLAN_TYPE_STANDARD_FREE \<and>
    realm_plan_type (user_realm (request_user request)) \<noteq> PLAN_TYPE_LIMITED \<and>
    pending_on_paid_plan co (local_account request) (fetched_local co request w) \<longrightarrow>
      (\<exists>context. fst (billing_page co request success_message w) =
           Inr (render ''corporate/billing.html'' context)
         \<and> map_of context ''sponsorship_pending'' =
             Some (sponsorship_pending_shown
                     (billing_page_context_answer co (local_account request)
                        (fetched_local co request w)))))
   \<and> (remote_realm_plan_type (session_remote_realm realm_session) \<noteq> PLAN_TYPE_COMMUNITY \<and>
      remote_realm_plan_type (session_remote_realm realm_session) \<noteq> PLAN_TYPE_SELF_HOSTED \<and>
      pending_on_paid_plan co (RemoteRealmBillingSession realm_session)
        (fetched_remote co (RemoteRealmBillingSession realm_session) w) \<longrightarrow>
      (\<exists>context. fst (remote_realm_billing_page co realm_session success_message w) =
           Inr (render ''corporate/billing.html'' context)
         \<and> map_of context ''sponsorship_pending'' =
             Some (sponsorship_pending_shown
                     (billing_page_context_answer co (RemoteRealmBillingSession realm_session)
                        (fetched_remote co (RemoteRealmBillingSession realm_session) w)))))
   \<and> (remote_server_plan_type (session_remote_server server_session) \<noteq> PLAN_TYPE_COMMUNITY \<and>
      remote_server_plan_type (session_remote_server server_session) \<noteq> PLAN_TYPE_SELF_HOSTED \<and>
      pending_on_paid_plan co (RemoteServerBillingSession server_session)
        (fetched_remote co (RemoteServerBillingSession server_session) w) \<longrightarrow>
      (\<exists>context. fst (remote_server_billing_page co server_session success_message w) =
           Inr (render ''corporate/billing.html'' context)
         \<and> map_of context ''sponsorship_pending'' =
             Some (sponsorship_pending_shown
                     (billing_page_context_answer co (RemoteServerBillingSession server_session)
                        (fetched_remote co (RemoteServerBillingSession server_session) w)))))"
  by (simp add: on_account resolve_step_7_pending)

theorem pending_sponsorship_on_paid_plan_shows_page_witness:
  "(\<exists>context.
      fst (billing_page
             (fixture_collaborators (Some (fixture_customer True)) True True
                [(''plan_name'', PyStr ''Zulip Cloud Standard'')])
             (fixture_request True (PLAN_TYPE_OTHER 3) []) ''saved'' fixture_world) =
        Inr (render ''corporate/billing.html'' context)
      \<and> map_of context ''sponsorship_pending'' = Some (PyBool True))
   \<and> (\<exists>context.
      fst (remote_realm_billing_page
             (fixture_collaborators (Some (fixture_customer True)) True True
                [(''plan_name'', PyStr ''Zulip Cloud Standard'')])
             (fixture_remote_realm_session (REMOTE_PLAN_TYPE_OTHER 3)) ''saved'' fixture_world) =
        Inr (render ''corporate/billing.html'' context)
      \<and> map_of context ''sponsorship_pending'' = Some (PyBool True))
   \<and> (\<exists>context.
      fst (remote_server_billing_page
             (fixture_collaborators (Some (fixture_customer True)) True True
                [(''sponsorship_pending'', PyBool False)])
             (fixture_remote_server_session (REMOTE_PLAN_TYPE_OTHER 3)) ''saved'' fixture_world) =
        Inr (render ''corporate/billing.html'' context)
      \<and> map_of context ''sponsorship_pending'' = Some (PyBool False))"
  using
    pending_sponsorship_on_paid_plan_shows_page
      [where request = "fixture_request True (PLAN_TYPE_OTHER 3) []"
         and co = "fixture_collaborators (Some (fixture_customer True)) True True
                     [(''plan_name'', PyStr ''Zulip Cloud Standard'')]"
         and success_message = "''saved''" and w = fixture_world
         and realm_session = "fixture_remote_realm_session (REMOTE_PLAN_TYPE_OTHER 3)",
       THEN conjunct1]
    pending_sponsorship_on_paid_plan_shows_page
      [where co = "fixture_collaborators (Some (fixture_customer True)) True True
                     [(''plan_name'', PyStr ''Zulip Cloud Standard'')]"
         and success_message = "''saved''" and w = fixture_world
         and realm_session = "fixture_remote_realm_session (REMOTE_PLAN_TYPE_OTHER 3)",
       THEN conjunct2, THEN conjunct1]
    pending_sponsorship_on_paid_plan_shows_page
      [where co = "fixture_collaborators (Some (fixture_customer True)) True True
                     [(''sponsorship_pending'', PyBool False)]"
         and success_message = "''saved''" and w = fixture_world
         and server_session = "fixture_remote_server_session (REMOTE_PLAN_TYPE_OTHER 3)",
       THEN conjunct2, THEN conjunct2]
  by (simp add: fixture_defs pending_on_paid_plan_def billing_page_context_answer_def
        sponsorship_pending_shown_def fetched_local_def fetched_remote_def local_account_def)

text \<open>
  The claim as stated fails: on the conditions of the claim, a billing page context that
  carries \<open>sponsorship_pending = False\<close> leaves the page with the flag false.
\<close>

theorem pending_sponsorship_flag_counterexample:
  "billing_page
     (fixture_collaborators (Some (fixture_customer True)) True True
        [(''sponsorship_pending'', PyBool False)])
     (fixture_request True (PLAN_TYPE_OTHER 3) []) ''saved'' fixture_world =
   (Inr (render ''corporate/billing.html''
      [(''admin_access'', PyBool True),
       (''has_active_plan'', PyBool False),
       (''org_name'', PyStr ''zulip''),
       (''billing_base_url'', PyStr ''''),
       (''sponsorship_pending'', PyBool False),
       (''success_message'', PyStr ''saved'')]),
    \<lparr>db = 0, calls =
       [Call_get_customer_by_realm (fixture_realm (PLAN_TYPE_OTHER 3)),
        Call_on_paid_plan (local_account (fixture_request True (PLAN_TYPE_OTHER 3) [])),
        Call_customer_plan_exists (fixture_customer True),
        Call_get_billing_page_context
          (local_account (fixture_request True (PLAN_TYPE_OTHER 3) []))]\<rparr>)"
  by (simp add: billing_page_def invoke_def Let_def dict_update_def local_account_def
        fixture_defs)

text \<open>
  C5. An account past steps 1 to 4 (billing access, a plan type that is neither the
  community nor the self-hosted/limited tier, no sponsorship redirect at step 3a) is sent
  to its upgrade page when it has no customer, and when its customer has no plan row.
\<close>

theorem no_customer_or_no_plan_redirects_to_upgrade:
  "(is_authenticated (request_user request) \<and> has_billing_access (request_user request) \<and>
    realm_plan_type (user_realm (request_user request)) \<noteq> PLAN_TYPE_STANDARD_FREE \<and>
    realm_plan_type (user_realm (request_user request)) \<noteq> PLAN_TYPE_LIMITED \<and>
    \<not> sponsorship_redirect_due co (local_account request) (fetched_local co request w) \<and>
    no_customer_plan co (local_account request) (fetched_local co request w) \<longrightarrow>
      fst (billing_page co request success_message w) =
        Inr (HttpResponseRedirect (reverse ''upgrade_page'' [] [])))
   \<and> (remote_realm_plan_type (session_remote_realm realm_session) \<noteq> PLAN_TYPE_COMMUNITY \<and>
      remote_realm_plan_type (session_remote_realm realm_session) \<noteq> PLAN_TYPE_SELF_HOSTED \<and>
      \<not> sponsorship_redirect_due co (RemoteRealmBillingSession realm_session)
          (fetched_remote co (RemoteRealmBillingSession realm_session) w) \<and>
      no_customer_plan co (RemoteRealmBillingSession realm_session)
        (fetched_remote co (RemoteRealmBillingSession realm_session) w) \<longrightarrow>
      fst (remote_realm_billing_page co realm_session success_message w) =
        Inr (HttpResponseRedirect (reverse ''remote_realm_upgrade_page''
               [remote_realm_uuid (session_remote_realm realm_session)] [])))
   \<and> (remote_server_plan_type (session_remote_server server_session) \<noteq> PLAN_TYPE_COMMUNITY \<and>
      remote_server_plan_type (session_remote_server server_session) \<noteq> PLAN_TYPE_SELF_HOSTED \<and>
      \<not> sponsorship_redirect_due co (RemoteServerBillingSession server_session)
          (fetched_remote co (RemoteServerBillingSession server_session) w) \<and>
      no_customer_plan co (RemoteServerBillingSession server_session)
        (fetched_remote co (RemoteServerBillingSession server_session) w) \<longrightarrow>
      fst (remote_server_billing_page co server_session success_message w) =
        Inr (HttpResponseRedirect (reverse ''remote_server_upgrade_page'' []
               [(''server_uuid'', remote_server_uuid (session_remote_server server_session))])))"
  by (simp add: on_account resolve_steps_5_and_6)

theorem no_customer_or_no_plan_redirects_to_upgrade_witness:
  "fst (billing_page (fixture_collaborators None False False [])
          (fixture_request True (PLAN_TYPE_OTHER 3) []) '''' fixture_world) =
     Inr (HttpResponseRedirect (reverse ''upgrade_page'' [] []))
   \<and> fst (remote_realm_billing_page
            (fixture_collaborators (Some (fixture_customer True)) True False [])
            (fixture_remote_realm_session (REMOTE_PLAN_TYPE_OTHER 3)) '''' fixture_world) =
     Inr (HttpResponseRedirect (reverse ''remote_realm_upgrade_page'' [''r-1''] []))
   \<and> fst (remote_server_billing_page
            (fixture_collaborators (Some (fixture_customer False)) False False [])
            (fixture_remote_server_session (REMOTE_PLAN_TYPE_OTHER 3)) '''' fixture_world) =
     Inr (HttpResponseRedirect (reverse ''remote_server_upgrade_page'' []
            [(''server_uuid'', ''s-1'')]))"
  using
    no_customer_or_no_plan_redirects_to_upgrade
      [where request = "fixture_request True (PLAN_TYPE_OTHER 3) []"
         and co = "fixture_collaborators None False False []"
         and success_message = "''''" and w = fixture_world, THEN conjunct1]
    no_customer_or_no_plan_redirects_to_upgrade
      [where co = "fixture_collaborators (Some (fixture_customer True)) True False []"
         and success_message = "''''" and w = fixture_world
         and realm_session = "fixture_remote_realm_session (REMOTE_PLAN_TYPE_OTHER 3)",
       THEN conjunct2, THEN conjunct1]
    no_customer_or_no_plan_redirects_to_upgrade
      [where co = "fixture_collaborators (Some (fixture_customer False)) False False []"
         and success_message = "''''" and w = fixture_world
         and server_session = "fixture_remote_server_session (REMOTE_PLAN_TYPE_OTHER 3)",
       THEN conjunct2, THEN conjunct2]
  by (simp add: fixture_defs sponsorship_redirect_due_def no_customer_plan_def
        db_after_sponsorship_def fetched_local_def fetched_remote_def local_account_def)


subsection \<open>What the billing pages do to the world\<close>

lemma resolve_local_organization_calls:
  "\<exists>cs. calls (snd (resolve_local_organization co request msg w)) = calls w @ cs \<and> distinct cs
     \<and> set cs \<subseteq> {Call_get_customer_by_realm (user_realm (request_user request)),
                   Call_on_paid_plan (local_account request),
                   Call_get_billing_page_context (local_account request)}
                  \<union> range Call_customer_plan_exists"
proof (cases "is_authenticated (request_user request) \<and> has_billing_access (request_user request)")
  case True
  then show ?thesis
    using resolve_calls [where fc = "Call_get_customer_by_realm (user_realm (request_user request))"]
    by (simp add: resolve_local_organization_def local_account_def Let_def)
next
  case False
  then show ?thesis
    by (auto simp: resolve_local_organization_def Let_def)
qed







text \<open>
  C9. Every call \<open>billing_page\<close> makes on a billing session is made on the session built
  with \<open>user=None\<close> and the realm of the request's user, although the view has just
  asserted that this user is authenticated. \<open>update_plan\<close> calls \<open>do_update_plan\<close> on a
  session built with the acting user.
\<close>

theorem local_sessions_and_their_user:
  "(\<exists>cs. calls (snd (billing_page co request success_message w)) = calls w @ cs
        \<and> (\<forall>c \<in> set cs. \<forall>s. call_session c = Some s \<longrightarrow>
              s = RealmBillingSession
                    \<lparr>session_user = None,
                     session_realm = Some (user_realm (request_user request))\<rparr>))
   \<and> (update_plan_variables CustomerPlan request = Inr r \<longrightarrow>
        calls (snd (update_plan co CustomerPlan request user w)) =
          calls w @ [Call_do_update_plan
                       (RealmBillingSession \<lparr>session_user = Some user, session_realm = None\<rparr>) r])"
proof (intro conjI impI)
  obtain cs where cs:
    "calls (snd (resolve_local_organization co request success_message w)) = calls w @ cs"
    "set cs \<subseteq> {Call_get_customer_by_realm (user_realm (request_user request)),
                 Call_on_paid_plan (local_account request),
                 Call_get_billing_page_context (local_account request)}
                \<union> range Call_customer_plan_exists"
    using resolve_local_organization_calls [of co request success_message w] by blast
  have "\<forall>c \<in> set cs. \<forall>s. call_session c = Some s \<longrightarrow>
          s = RealmBillingSession
                \<lparr>session_user = None, session_realm = Some (user_realm (request_user request))\<rparr>"
    using cs(2) by (auto simp: local_account_def)
  with cs(1) show "\<exists>cs. calls (snd (billing_page co request success_message w)) = calls w @ cs
        \<and> (\<forall>c \<in> set cs. \<forall>s. call_session c = Some s \<longrightarrow>
              s = RealmBillingSession
                    \<lparr>session_user = None,
                     session_realm = Some (user_realm (request_user request))\<rparr>)"
    by (auto simp: billing_page_is_resolve)
next
  assume "update_plan_variables CustomerPlan request = Inr r"
  then show "calls (snd (update_plan co CustomerPlan request user w)) =
          calls w @ [Call_do_update_plan
                       (RealmBillingSession \<lparr>session_user = Some user, session_realm = None\<rparr>) r]"
    by (simp add: update_plan_def invoke_def Let_def case_prod_beta
          split: sum.splits prod.splits)
qed

theorem local_sessions_and_their_user_witness:
  "calls (snd (billing_page (fixture_collaborators (Some (fixture_customer True)) True True [])
           (fixture_request True (PLAN_TYPE_OTHER 3) []) '''' fixture_world)) =
     [Call_get_customer_by_realm (fixture_realm (PLAN_TYPE_OTHER 3)),
      Call_on_paid_plan
        (RealmBillingSession
           \<lparr>session_user = None, session_realm = Some (fixture_realm (PLAN_TYPE_OTHER 3))\<rparr>),
      Call_customer_plan_exists (fixture_customer True),
      Call_get_billing_page_context
        (RealmBillingSession
           \<lparr>session_user = None, session_realm = Some (fixture_realm (PLAN_TYPE_OTHER 3))\<rparr>)]
   \<and> calls (snd (update_plan (fixture_collaborators None False False []) fixture_constants
           (fixture_request True (PLAN_TYPE_OTHER 3) [(''licenses'', JInt 25)])
           (fixture_user True (PLAN_TYPE_OTHER 3)) fixture_world)) =
     [Call_do_update_plan
        (RealmBillingSession
           \<lparr>session_user = Some (fixture_user True (PLAN_TYPE_OTHER 3)), session_realm = None\<rparr>)
        \<lparr>status = None, licenses = Some 25, licenses_at_next_renewal = None, schedule = None\<rparr>]"
proof -
  have vars: "update_plan_variables fixture_constants
         (fixture_request True (PLAN_TYPE_OTHER 3) [(''licenses'', JInt 25)]) =
       Inr \<lparr>status = None, licenses = Some 25, licenses_at_next_renewal = None, schedule = None\<rparr>"
    by (simp add: update_plan_variables_def REQ_def check_int_def fixture_request_def)
  have "calls (snd (billing_page (fixture_collaborators (Some (fixture_customer True)) True True [])
           (fixture_request True (PLAN_TYPE_OTHER 3) []) '''' fixture_world)) =
     [Call_get_customer_by_realm (fixture_realm (PLAN_TYPE_OTHER 3)),
      Call_on_paid_plan
        (RealmBillingSession
           \<lparr>session_user = None, session_realm = Some (fixture_realm (PLAN_TYPE_OTHER 3))\<rparr>),
      Call_customer_plan_exists (fixture_customer True),
      Call_get_billing_page_context
        (RealmBillingSession
           \<lparr>session_user = None, session_realm = Some (fixture_realm (PLAN_TYPE_OTHER 3))\<rparr>)]"
    by (simp add: billing_page_def invoke_def
          Let_def fixture_defs)
  moreover have "calls (snd (update_plan (fixture_collaborators None False False [])
           fixture_constants
           (fixture_request True (PLAN_TYPE_OTHER 3) [(''licenses'', JInt 25)])
           (fixture_user True (PLAN_TYPE_OTHER 3)) fixture_world)) =
     [Call_do_update_plan
        (RealmBillingSession
           \<lparr>session_user = Some (fixture_user True (PLAN_TYPE_OTHER 3)), session_realm = None\<rparr>)
        \<lparr>status = None, licenses = Some 25, licenses_at_next_renewal = None, schedule = None\<rparr>]"
    using vars
      local_sessions_and_their_user
        [where CustomerPlan = fixture_constants
           and request = "fixture_request True (PLAN_TYPE_OTHER 3) [(''licenses'', JInt 25)]"
           and co = "fixture_collaborators None False False []"
           and user = "fixture_user True (PLAN_TYPE_OTHER 3)" and w = fixture_world,
         THEN conjunct2]
    by (simp add: fixture_world_def)
  ultimately show ?thesis by simp
qed


subsection \<open>The request variables of the update endpoints\<close>
















end
